theory Spec2Isabelle
  imports Main "HOL-Library.Sublist"
begin

section \<open>Calendar dates\<close>

text \<open>
  The script works on \<^verbatim>\<open>datetime.date\<close> values. A date is its three fields; every
  comparison, difference and \<^verbatim>\<open>timedelta\<close> shift that the script performs on dates is
  defined by Python through the proleptic Gregorian ordinal of the date
  (\<^verbatim>\<open>date.toordinal\<close>, day 1 being Monday 0001-01-01), so the model computes with
  ordinals, which are unbounded integers.
\<close>

datatype date = Date (year: int) (month: int) (day: int)

definition is_leap :: "int \<Rightarrow> bool" where
  "is_leap y = (y mod 4 = 0 \<and> (y mod 100 \<noteq> 0 \<or> y mod 400 = 0))"

definition days_before_year :: "int \<Rightarrow> int" where
  "days_before_year y = (y - 1) * 365 + (y - 1) div 4 - (y - 1) div 100 + (y - 1) div 400"

definition DAYS_BEFORE_MONTH :: "int list" where
  "DAYS_BEFORE_MONTH = [- 1, 0, 31, 59, 90, 120, 151, 181, 212, 243, 273, 304, 334]"

definition days_before_month :: "int \<Rightarrow> int \<Rightarrow> int" where
  "days_before_month y m =
     DAYS_BEFORE_MONTH ! nat m + (if m > 2 \<and> is_leap y then 1 else 0)"

definition toordinal :: "date \<Rightarrow> int" where
  "toordinal d = days_before_year (year d) + days_before_month (year d) (month d) + day d"

text \<open>\<^verbatim>\<open>date.weekday()\<close>: Monday is 0 and Sunday is 6.\<close>

definition weekday :: "date \<Rightarrow> int" where
  "weekday d = (toordinal d + 6) mod 7"

text \<open>
  \<^verbatim>\<open>d - timedelta(days=d.weekday())\<close>: the Monday of the week of \<open>d\<close>, as an ordinal.
  Ordinal 1 is a Monday, so the shift never leaves the range of \<^verbatim>\<open>date\<close>.
\<close>

definition week_monday :: "date \<Rightarrow> int" where
  "week_monday d = toordinal d - weekday d"

section \<open>Configuration\<close>

record config =
  semester_start_date :: date
  holiday_weeks_mondays :: "date list"
  send_empty_email :: bool

definition SEMESTER_START_DATE :: date where
  "SEMESTER_START_DATE = Date 2026 2 23"

definition HOLIDAY_WEEKS_MONDAYS :: "date list" where
  "HOLIDAY_WEEKS_MONDAYS = [Date 2026 4 13]"

definition SEND_EMPTY_EMAIL :: bool where
  "SEND_EMPTY_EMAIL = False"

definition module_config :: config where
  "module_config =
     \<lparr>semester_start_date = SEMESTER_START_DATE,
      holiday_weeks_mondays = HOLIDAY_WEEKS_MONDAYS,
      send_empty_email = SEND_EMPTY_EMAIL\<rparr>"

section \<open>Week parity\<close>

text \<open>
  \<^verbatim>\<open>get_academic_week_parity\<close>, with the two module constants it reads as arguments.
  \<^verbatim>\<open>current_monday in HOLIDAY_WEEKS_MONDAYS\<close> and \<^verbatim>\<open>hw <= current_monday\<close> compare dates,
  which Python decides as it decides the comparison of their ordinals.
\<close>

definition academic_week_parity :: "date \<Rightarrow> date list \<Rightarrow> date \<Rightarrow> string" where
  "academic_week_parity start holidays today_date =
     (let current_monday = toordinal today_date - weekday today_date;
          start_monday = toordinal start - weekday start
      in if current_monday < start_monday then ''all''
         else
           let days_elapsed = current_monday - start_monday;
               calendar_weeks_elapsed = days_elapsed div 7;
               holidays_passed =
                 int (length (filter (\<lambda>hw. toordinal hw \<le> current_monday) holidays));
               academic_week_index = calendar_weeks_elapsed - holidays_passed
           in if current_monday \<in> set (map toordinal holidays) then ''holiday''
              else if academic_week_index mod 2 \<noteq> 0 then ''even'' else ''odd'')"

definition get_academic_week_parity :: "date \<Rightarrow> string" where
  "get_academic_week_parity today_date =
     academic_week_parity SEMESTER_START_DATE HOLIDAY_WEEKS_MONDAYS today_date"

text \<open>
  The quantities of the algorithm as its description names them, for comparison with
  the function above: weeks elapsed since the start week, holiday weeks up to the
  current week (counted over the configured list, so a date listed twice counts twice,
  as in the code) and their difference.
\<close>

definition calendar_weeks_elapsed :: "date \<Rightarrow> date \<Rightarrow> int" where
  "calendar_weeks_elapsed start today_date = (week_monday today_date - week_monday start) div 7"

definition holidays_passed :: "date list \<Rightarrow> date \<Rightarrow> int" where
  "holidays_passed holidays today_date =
     int (length (filter (\<lambda>hw. toordinal hw \<le> week_monday today_date) holidays))"

definition academic_week_index :: "date \<Rightarrow> date list \<Rightarrow> date \<Rightarrow> int" where
  "academic_week_index start holidays today_date =
     calendar_weeks_elapsed start today_date - holidays_passed holidays today_date"

section \<open>Text\<close>

text \<open>
  Strings are lists of characters, a character being a code point below 256; text with
  other code points is outside the model. On these code points \<^verbatim>\<open>str.lower\<close>,
  \<^verbatim>\<open>str.strip\<close>, \<^verbatim>\<open>str.splitlines\<close> and case-insensitive matching act as below.
\<close>

definition UPPER_CASE :: "char list" where
  "UPPER_CASE = ''ABCDEFGHIJKLMNOPQRSTUVWXYZ'' @
     [CHR 0xC0, CHR 0xC1, CHR 0xC2, CHR 0xC3, CHR 0xC4, CHR 0xC5, CHR 0xC6, CHR 0xC7,
      CHR 0xC8, CHR 0xC9, CHR 0xCA, CHR 0xCB, CHR 0xCC, CHR 0xCD, CHR 0xCE, CHR 0xCF,
      CHR 0xD0, CHR 0xD1, CHR 0xD2, CHR 0xD3, CHR 0xD4, CHR 0xD5, CHR 0xD6, CHR 0xD8,
      CHR 0xD9, CHR 0xDA, CHR 0xDB, CHR 0xDC, CHR 0xDD, CHR 0xDE]"

definition LOWER_CASE :: "char list" where
  "LOWER_CASE = ''abcdefghijklmnopqrstuvwxyz'' @
     [CHR 0xE0, CHR 0xE1, CHR 0xE2, CHR 0xE3, CHR 0xE4, CHR 0xE5, CHR 0xE6, CHR 0xE7,
      CHR 0xE8, CHR 0xE9, CHR 0xEA, CHR 0xEB, CHR 0xEC, CHR 0xED, CHR 0xEE, CHR 0xEF,
      CHR 0xF0, CHR 0xF1, CHR 0xF2, CHR 0xF3, CHR 0xF4, CHR 0xF5, CHR 0xF6, CHR 0xF8,
      CHR 0xF9, CHR 0xFA, CHR 0xFB, CHR 0xFC, CHR 0xFD, CHR 0xFE]"

definition lower_char :: "char \<Rightarrow> char" where
  "lower_char c = (case map_of (zip UPPER_CASE LOWER_CASE) c of Some l \<Rightarrow> l | None \<Rightarrow> c)"

text \<open>The capital of a letter. The script capitalizes the label of the week parity only,
  in which every letter has its capital among the code points of the model.\<close>

definition upper_char :: "char \<Rightarrow> char" where
  "upper_char c = (case map_of (zip LOWER_CASE UPPER_CASE) c of Some u \<Rightarrow> u | None \<Rightarrow> c)"

definition str_lower :: "string \<Rightarrow> string" where
  "str_lower s = map lower_char s"

definition capitalize :: "string \<Rightarrow> string" where
  "capitalize s = (case s of [] \<Rightarrow> [] | c # cs \<Rightarrow> upper_char c # map lower_char cs)"

definition is_space :: "char \<Rightarrow> bool" where
  "is_space c =
     (c \<in> set [CHR 0x20, CHR 0x09, CHR 0x0A, CHR 0x0B, CHR 0x0C, CHR 0x0D,
                CHR 0x1C, CHR 0x1D, CHR 0x1E, CHR 0x1F, CHR 0x85, CHR 0xA0])"

definition strip :: "string \<Rightarrow> string" where
  "strip s = rev (dropWhile is_space (rev (dropWhile is_space s)))"

text \<open>\<^verbatim>\<open>len(s.splitlines()) > 1\<close>: some line boundary of \<open>s\<close> has a character after it,
  a carriage return with the line feed that follows it being one boundary.\<close>

definition is_line_boundary :: "char \<Rightarrow> bool" where
  "is_line_boundary c =
     (c \<in> set [CHR 0x0A, CHR 0x0D, CHR 0x0B, CHR 0x0C, CHR 0x1C, CHR 0x1D, CHR 0x1E, CHR 0x85])"

fun several_lines :: "string \<Rightarrow> bool" where
  "several_lines [] = False"
| "several_lines [c] = False"
| "several_lines (c # d # cs) =
     (if c = CHR 0x0D \<and> d = CHR 0x0A then cs \<noteq> []
      else if is_line_boundary c then True
      else several_lines (d # cs))"

text \<open>\<^verbatim>\<open>sep.join(parts)\<close>.\<close>

fun join :: "string \<Rightarrow> string list \<Rightarrow> string" where
  "join sep [] = []"
| "join sep [p] = p"
| "join sep (p # q # ps) = p @ sep @ join sep (q # ps)"

text \<open>\<^verbatim>\<open>strftime("%A")\<close> and \<^verbatim>\<open>strftime("%Y-%m-%d")\<close> (years of four digits).\<close>

definition DAY_NAMES :: "string list" where
  "DAY_NAMES =
     [''Monday'', ''Tuesday'', ''Wednesday'', ''Thursday'', ''Friday'', ''Saturday'', ''Sunday'']"

definition strftime_A :: "date \<Rightarrow> string" where
  "strftime_A d = DAY_NAMES ! nat (weekday d)"

definition digit :: "int \<Rightarrow> char" where
  "digit n = ''0123456789'' ! nat (n mod 10)"

definition strftime_Ymd :: "date \<Rightarrow> string" where
  "strftime_Ymd d =
     [digit (year d div 1000), digit (year d div 100), digit (year d div 10), digit (year d)]
     @ ''-'' @ [digit (month d div 10), digit (month d)]
     @ ''-'' @ [digit (day d div 10), digit (day d)]"

section \<open>The schedule table\<close>

text \<open>
  A \<^verbatim>\<open>DataFrame\<close> read with \<^verbatim>\<open>dtype=str\<close>: column labels and rows of cells, a cell being
  a string or missing (\<^verbatim>\<open>NaN\<close>, here \<open>None\<close>). Labels may repeat.
\<close>

type_synonym cell = "string option"

record dataframe =
  columns :: "string list"
  rows :: "cell list list"

datatype py_exception =
    FileNotFoundError | ReadFailure | KeyError string
  | AttributeError | TypeError | ValueError | OverrideReadFailure

text \<open>
  Where the run stops without returning: an uncaught exception, or one of the places
  where the model does not follow the libraries: a search pattern outside the fragment
  of regular expressions modelled below, a selection or rendering through a label that
  several columns bear, or a list of cancelled hours that holds something else than
  strings.
\<close>

datatype fault =
    Uncaught py_exception
  | PatternNotModelled
  | RepeatedLabelNotModelled
  | OverrideNotModelled

definition cell_of :: "string list \<Rightarrow> cell list \<Rightarrow> string \<Rightarrow> cell" where
  "cell_of cols r c = (case map_of (zip cols r) c of Some v \<Rightarrow> v | None \<Rightarrow> None)"

text \<open>
  \<^verbatim>\<open>df[c]\<close>: \<^verbatim>\<open>KeyError\<close> when no column bears the label, the column as a series when
  one does, and a frame of the columns when several do.
\<close>

datatype selection = NoColumn | OneColumn "cell list" | SeveralColumns

definition getitem :: "dataframe \<Rightarrow> string \<Rightarrow> selection" where
  "getitem df c =
     (if c \<notin> set (columns df) then NoColumn
      else if count_list (columns df) c = 1
        then OneColumn (map (\<lambda>r. cell_of (columns df) r c) (rows df))
      else SeveralColumns)"

text \<open>\<^verbatim>\<open>df[c].str\<close>: a frame has no such attribute.\<close>

definition str_accessor :: "dataframe \<Rightarrow> string \<Rightarrow> fault + cell list" where
  "str_accessor df c =
     (case getitem df c of
        NoColumn \<Rightarrow> Inl (Uncaught (KeyError c))
      | OneColumn cells \<Rightarrow> Inr cells
      | SeveralColumns \<Rightarrow> Inl (Uncaught AttributeError))"

text \<open>\<^verbatim>\<open>df[keep]\<close> for a boolean series \<open>keep\<close> aligned with the rows.\<close>

definition select_rows :: "dataframe \<Rightarrow> bool list \<Rightarrow> dataframe" where
  "select_rows df keep = df\<lparr>rows := map snd (filter fst (zip keep (rows df)))\<rparr>"

definition df_empty :: "dataframe \<Rightarrow> bool" where
  "df_empty df = (rows df = [] \<or> columns df = [])"

text \<open>
  What \<^verbatim>\<open>load_data\<close> meets: no file; a failure of \<^verbatim>\<open>read_excel\<close> or of the trimming of
  a header row that is not text; or the frame that \<^verbatim>\<open>read_excel\<close> returns, given by its
  labels and cells, after the library has made the cells it takes for missing values
  missing. In \<open>Sheet\<close> the columns have the \<^verbatim>\<open>object\<close> dtype, which \<^verbatim>\<open>dtype=str\<close> gives up
  to pandas 2, and the cells are trimmed; in \<open>StringSheet\<close> they have the string dtype of
  pandas 3, for which the test \<^verbatim>\<open>x.dtype == "object"\<close> fails and the cells stay as they
  are. The labels are trimmed in both.
\<close>

datatype schedule_source =
    NoFile | Unreadable
  | Sheet "string list" "cell list list"
  | StringSheet "string list" "cell list list"

definition load_data :: "schedule_source \<Rightarrow> py_exception + dataframe" where
  "load_data src =
     (case src of
        NoFile \<Rightarrow> Inl FileNotFoundError
      | Unreadable \<Rightarrow> Inl ReadFailure
      | Sheet header cells \<Rightarrow>
          Inr \<lparr>columns = map strip header, rows = map (map (map_option strip)) cells\<rparr>
      | StringSheet header cells \<Rightarrow>
          Inr \<lparr>columns = map strip header, rows = cells\<rparr>)"

section \<open>Daily overrides\<close>

text \<open>
  The value that \<^verbatim>\<open>json.load\<close> returns. Of a number the script reads only whether it is
  zero, which is the flag of \<open>JNumber\<close>. An object is the list of its members; a name
  that occurs again takes the later value and keeps the earlier place, as in the
  dictionary that Python builds.
\<close>

datatype json =
    JNull | JBool bool | JNumber bool | JString string
  | JArray "json list" | JObject "(string \<times> json) list"

type_synonym dict = "(string \<times> json) list"

text \<open>\<^verbatim>\<open>d.get(key)\<close> and the keys of \<open>d\<close> in the order of iteration.\<close>

definition dict_get :: "dict \<Rightarrow> string \<Rightarrow> json option" where
  "dict_get d key = map_of (rev d) key"

fun dict_keys :: "dict \<Rightarrow> string list" where
  "dict_keys [] = []"
| "dict_keys ((k, v) # d) = k # filter (\<lambda>k'. k' \<noteq> k) (dict_keys d)"

text \<open>The truth value of a decoded value, as \<^verbatim>\<open>if v:\<close> reads it.\<close>

definition truthy :: "json \<Rightarrow> bool" where
  "truthy v =
     (case v of
        JNull \<Rightarrow> False
      | JBool b \<Rightarrow> b
      | JNumber zero \<Rightarrow> \<not> zero
      | JString s \<Rightarrow> s \<noteq> []
      | JArray xs \<Rightarrow> xs \<noteq> []
      | JObject d \<Rightarrow> d \<noteq> [])"

definition is_string :: "json \<Rightarrow> bool" where
  "is_string v = (case v of JString s \<Rightarrow> True | _ \<Rightarrow> False)"

definition string_of :: "json \<Rightarrow> string" where
  "string_of v = (case v of JString s \<Rightarrow> s | _ \<Rightarrow> [])"

text \<open>
  The file of overrides: absent; not decodable as JSON; failing to open or to read with
  another error, which nothing catches; or decoded to a value.
\<close>

datatype exceptions_source =
    NoExceptionsFile | MalformedJson | UnreadableOverrides | ExceptionsJson json

datatype subject =
    FreeDaySubject | HolidaySubject | ScheduleSubject string | UniScheduleSubject string

datatype body =
    FreeDayBody | HolidayBody | NoClassesBody
  | ScheduleTable string "(cell \<times> cell \<times> cell \<times> cell) list"

record email =
  email_subject :: subject
  email_from :: string
  email_to :: string
  email_body :: body

text \<open>The lines the script prints, one constructor for each \<^verbatim>\<open>print\<close> of the source.\<close>

datatype message =
    Processing string string
  | PrintedException py_exception
  | DayColumnNotFound
  | NoClassesScheduled
  | WeekTypeColumnNotFound
  | EnjoyHoliday
  | CurrentParity string
  | MalformedJsonWarning
  | FoundExceptions json
  | AllFilteredOut
  | SendingEmail nat
  | CredentialsMissing
  | EmailSent
  | EmailFailed

text \<open>
  \<^verbatim>\<open>for entry in data\<close>: the elements of a list, the keys of an object, the characters
  of a string; any other value is not iterable.
\<close>

definition iterate :: "json \<Rightarrow> py_exception + json list" where
  "iterate data =
     (case data of
        JArray xs \<Rightarrow> Inr xs
      | JObject d \<Rightarrow> Inr (map JString (dict_keys d))
      | JString s \<Rightarrow> Inr (map (\<lambda>c. JString [c]) s)
      | _ \<Rightarrow> Inl TypeError)"

text \<open>
  The loop \<^verbatim>\<open>for entry in data: if entry.get("date") == today_str: return entry\<close>. Only
  an object has the method \<^verbatim>\<open>get\<close>.
\<close>

fun first_match :: "string \<Rightarrow> json list \<Rightarrow> py_exception + dict option" where
  "first_match today_str [] = Inr None"
| "first_match today_str (entry # data) =
     (case entry of
        JObject d \<Rightarrow>
          (if dict_get d ''date'' = Some (JString today_str) then Inr (Some d)
           else first_match today_str data)
      | _ \<Rightarrow> Inl AttributeError)"

text \<open>The result is what the function prints and what it returns or raises. Only the
  error of decoding is caught.\<close>

definition get_todays_exceptions ::
    "exceptions_source \<Rightarrow> date \<Rightarrow> message list \<times> (py_exception + dict option)" where
  "get_todays_exceptions src today_date =
     (case src of
        NoExceptionsFile \<Rightarrow> ([], Inr None)
      | MalformedJson \<Rightarrow> ([MalformedJsonWarning], Inr None)
      | UnreadableOverrides \<Rightarrow> ([], Inl OverrideReadFailure)
      | ExceptionsJson data \<Rightarrow>
          ([], case iterate data of
                 Inl e \<Rightarrow> Inl e
               | Inr entries \<Rightarrow> first_match (strftime_Ymd today_date) entries))"

section \<open>Pattern search\<close>

text \<open>
  \<^verbatim>\<open>Series.str.contains(pattern, case=False, na=False)\<close> compiles \<open>pattern\<close> as a regular
  expression and searches every cell for it, ignoring case. The model covers the
  patterns made of ordinary characters, the dot and the alternation bar; a pattern
  holding any other special character is outside the fragment (\<open>None\<close>).
\<close>

datatype atom = Lit char | AnyChar

definition re_special :: "char list" where
  "re_special = CHR 0x5C # ''^$*+?{}[]()''"

fun split_bar :: "string \<Rightarrow> string list" where
  "split_bar [] = [[]]"
| "split_bar (c # cs) =
     (if c = CHR ''|'' then [] # split_bar cs
      else (case split_bar cs of [] \<Rightarrow> [[c]] | b # bs \<Rightarrow> (c # b) # bs))"

definition parse_atom :: "char \<Rightarrow> atom option" where
  "parse_atom c =
     (if c \<in> set re_special then None
      else if c = CHR ''.'' then Some AnyChar
      else Some (Lit c))"

fun parse_branch :: "string \<Rightarrow> atom list option" where
  "parse_branch [] = Some []"
| "parse_branch (c # cs) =
     (case parse_atom c of
        None \<Rightarrow> None
      | Some a \<Rightarrow> (case parse_branch cs of None \<Rightarrow> None | Some rest \<Rightarrow> Some (a # rest)))"

fun parse_branches :: "string list \<Rightarrow> atom list list option" where
  "parse_branches [] = Some []"
| "parse_branches (b # bs) =
     (case parse_branch b of
        None \<Rightarrow> None
      | Some r \<Rightarrow> (case parse_branches bs of None \<Rightarrow> None | Some rest \<Rightarrow> Some (r # rest)))"

definition re_compile :: "string \<Rightarrow> atom list list option" where
  "re_compile pattern = parse_branches (split_bar pattern)"

definition atom_matches :: "atom \<Rightarrow> char \<Rightarrow> bool" where
  "atom_matches a c =
     (case a of Lit l \<Rightarrow> lower_char l = lower_char c | AnyChar \<Rightarrow> c \<noteq> CHR 0x0A)"

fun match_here :: "atom list \<Rightarrow> string \<Rightarrow> bool" where
  "match_here [] s = True"
| "match_here (a # rest) [] = False"
| "match_here (a # rest) (c # cs) = (atom_matches a c \<and> match_here rest cs)"

fun re_search :: "atom list list \<Rightarrow> string \<Rightarrow> bool" where
  "re_search branches [] = list_ex (\<lambda>b. match_here b []) branches"
| "re_search branches (c # cs) =
     (list_ex (\<lambda>b. match_here b (c # cs)) branches \<or> re_search branches cs)"

definition str_contains :: "cell list \<Rightarrow> string \<Rightarrow> bool list option" where
  "str_contains vals pattern =
     (case re_compile pattern of
        None \<Rightarrow> None
      | Some branches \<Rightarrow>
          Some (map (\<lambda>v. case v of None \<Rightarrow> False | Some s \<Rightarrow> re_search branches s) vals))"

text \<open>\<^verbatim>\<open>Series.isin(values)\<close>: a missing cell is in no list of strings.\<close>

definition isin :: "cell \<Rightarrow> string list \<Rightarrow> bool" where
  "isin v vals = (case v of None \<Rightarrow> False | Some s \<Rightarrow> s \<in> set vals)"

section \<open>The filters of the pipeline\<close>

definition fillna :: "string \<Rightarrow> cell \<Rightarrow> string" where
  "fillna d v = (case v of None \<Rightarrow> d | Some s \<Rightarrow> s)"

text \<open>\<^verbatim>\<open>df[df['Day'].str.lower() == today_day_name.lower()]\<close>\<close>

definition day_filter :: "string \<Rightarrow> dataframe \<Rightarrow> fault + dataframe" where
  "day_filter today_day_name df =
     (case str_accessor df ''Day'' of
        Inl f \<Rightarrow> Inl f
      | Inr days \<Rightarrow>
          Inr (select_rows df
                 (map (\<lambda>v. map_option str_lower v = Some (str_lower today_day_name)) days)))"

text \<open>The selection by \<^verbatim>\<open>WeekType\<close>, with \<^verbatim>\<open>fillna('all').str.lower()\<close> on both sides
  of the disjunction.\<close>

definition parity_filter :: "string \<Rightarrow> dataframe \<Rightarrow> fault + dataframe" where
  "parity_filter current_parity daily_classes =
     (case str_accessor daily_classes ''WeekType'' of
        Inl f \<Rightarrow> Inl f
      | Inr week_types \<Rightarrow>
          Inr (select_rows daily_classes
                 (map (\<lambda>v. str_lower (fillna ''all'' v) = ''all''
                           \<or> str_lower (fillna ''all'' v) = current_parity) week_types)))"

text \<open>\<^verbatim>\<open>exception_rule.get(key, [])\<close>\<close>

definition get_or_empty :: "dict \<Rightarrow> string \<Rightarrow> json" where
  "get_or_empty d key = (case dict_get d key of None \<Rightarrow> JArray [] | Some v \<Rightarrow> v)"

text \<open>
  The values that \<^verbatim>\<open>Series.isin\<close> compares the cells with. A value that is not
  list-like raises \<^verbatim>\<open>TypeError\<close>; the model follows the comparison for a list of strings.
\<close>

definition isin_values :: "json \<Rightarrow> fault + string list" where
  "isin_values v =
     (case v of
        JArray xs \<Rightarrow>
          if list_all is_string xs then Inr (map string_of xs) else Inl OverrideNotModelled
      | JObject d \<Rightarrow> Inl OverrideNotModelled
      | _ \<Rightarrow> Inl (Uncaught TypeError))"

text \<open>
  The parts that \<^verbatim>\<open>'|'.join(cancel_courses)\<close> joins: the elements of a list, which must
  be strings, the characters of a string, the keys of an object; any other value is not
  iterable.
\<close>

definition join_parts :: "json \<Rightarrow> py_exception + string list" where
  "join_parts v =
     (case v of
        JArray xs \<Rightarrow> if list_all is_string xs then Inr (map string_of xs) else Inl TypeError
      | JString s \<Rightarrow> Inr (map (\<lambda>c. [c]) s)
      | JObject d \<Rightarrow> Inr (dict_keys d)
      | _ \<Rightarrow> Inl TypeError)"

definition cancel_hours_filter :: "dict \<Rightarrow> dataframe \<Rightarrow> fault + dataframe" where
  "cancel_hours_filter exception_rule daily_classes =
     (let cancel_hours = get_or_empty exception_rule ''cancel_hours''
      in if truthy cancel_hours then
           (case getitem daily_classes ''Time'' of
              NoColumn \<Rightarrow> Inl (Uncaught (KeyError ''Time''))
            | SeveralColumns \<Rightarrow> Inl RepeatedLabelNotModelled
            | OneColumn time_cells \<Rightarrow>
                (case isin_values cancel_hours of
                   Inl f \<Rightarrow> Inl f
                 | Inr hours \<Rightarrow>
                     Inr (select_rows daily_classes (map (\<lambda>v. \<not> isin v hours) time_cells))))
         else Inr daily_classes)"

definition cancel_courses_filter :: "dict \<Rightarrow> dataframe \<Rightarrow> fault + dataframe" where
  "cancel_courses_filter exception_rule daily_classes =
     (let cancel_courses = get_or_empty exception_rule ''cancel_courses''
      in if truthy cancel_courses then
           (case join_parts cancel_courses of
              Inl e \<Rightarrow> Inl (Uncaught e)
            | Inr parts \<Rightarrow>
                let pattern = join ''|'' parts
                in if pattern \<noteq> [] then
                     (case str_accessor daily_classes ''Course'' of
                        Inl f \<Rightarrow> Inl f
                      | Inr names \<Rightarrow>
                          (case str_contains names pattern of
                             None \<Rightarrow> Inl PatternNotModelled
                           | Some found \<Rightarrow> Inr (select_rows daily_classes (map Not found))))
                   else Inr daily_classes)
         else Inr daily_classes)"

definition apply_exception_rule :: "dict \<Rightarrow> dataframe \<Rightarrow> fault + dataframe" where
  "apply_exception_rule exception_rule daily_classes =
     (case cancel_hours_filter exception_rule daily_classes of
        Inl f \<Rightarrow> Inl f
      | Inr remaining \<Rightarrow> cancel_courses_filter exception_rule remaining)"

section \<open>The notifier\<close>

text \<open>
  What a run reads from outside: the current date, the two files, the two credential
  variables, and whether the exchange with the mail relay (connection, login and
  sending) succeeds.
\<close>

record environment =
  today :: date
  schedule_file :: schedule_source
  exceptions_file :: exceptions_source
  EMAIL_USER :: "string option"
  EMAIL_PASS :: "string option"
  smtp_accepts :: bool

text \<open>Python's \<^verbatim>\<open>not v\<close> for a value read with \<^verbatim>\<open>os.environ.get\<close>.\<close>

definition unset_or_empty :: "string option \<Rightarrow> bool" where
  "unset_or_empty v = (v = None \<or> v = Some [])"

text \<open>
  \<^verbatim>\<open>send_email\<close>: the lines printed and the messages for which a delivery is attempted,
  which are those that reach the connection to the relay. The message is built before
  the \<^verbatim>\<open>try\<close>: an address of several lines is refused as a header value with
  \<^verbatim>\<open>ValueError\<close>, which nothing catches. Every error of the exchange with the relay is
  caught and printed.
\<close>

definition send_email ::
    "environment \<Rightarrow> subject \<Rightarrow> body \<Rightarrow> py_exception + message list \<times> email list" where
  "send_email env subj body_html =
     (if unset_or_empty (EMAIL_USER env) \<or> unset_or_empty (EMAIL_PASS env)
      then Inr ([CredentialsMissing], [])
      else
        let email_address = fillna [] (EMAIL_USER env)
        in if several_lines email_address then Inl ValueError
           else
             let msg = \<lparr>email_subject = subj, email_from = email_address,
                        email_to = email_address, email_body = body_html\<rparr>
             in if smtp_accepts env then Inr ([EmailSent], [msg])
                else Inr ([EmailFailed], [msg]))"

text \<open>
  \<^verbatim>\<open>format_email_body\<close>: one table line for each row, reading \<^verbatim>\<open>row['Time']\<close>,
  \<^verbatim>\<open>row['Course']\<close>, \<^verbatim>\<open>row['Room']\<close> and \<^verbatim>\<open>row['Type']\<close> in this order; the first of
  them that is no column raises \<^verbatim>\<open>KeyError\<close> at the first row. The text rendered for a
  label that several columns bear is not modelled.
\<close>

definition format_email_body :: "dataframe \<Rightarrow> string \<Rightarrow> fault + body" where
  "format_email_body classes date_str =
     (if rows classes = [] then Inr (ScheduleTable date_str [])
      else
        (case filter (\<lambda>c. c \<notin> set (columns classes)) [''Time'', ''Course'', ''Room'', ''Type''] of
           c # _ \<Rightarrow> Inl (Uncaught (KeyError c))
         | [] \<Rightarrow>
             if list_ex (\<lambda>c. count_list (columns classes) c \<noteq> 1)
                  [''Time'', ''Course'', ''Room'', ''Type'']
             then Inl RepeatedLabelNotModelled
             else
               Inr (ScheduleTable date_str
                      (map (\<lambda>r. (cell_of (columns classes) r ''Time'',
                                 cell_of (columns classes) r ''Course'',
                                 cell_of (columns classes) r ''Room'',
                                 cell_of (columns classes) r ''Type'')) (rows classes)))))"

section \<open>The run\<close>

datatype outcome = Returned | Stopped fault

text \<open>What a run prints, the messages it tries to deliver, and how it ends.\<close>

record run =
  printed :: "message list"
  attempts :: "email list"
  outcome :: outcome

definition returned :: "message list \<Rightarrow> email list \<Rightarrow> run" where
  "returned out sent = \<lparr>printed = out, attempts = sent, outcome = Returned\<rparr>"

definition stopped :: "message list \<Rightarrow> fault \<Rightarrow> run" where
  "stopped out f = \<lparr>printed = out, attempts = [], outcome = Stopped f\<rparr>"

definition send_and_return :: "environment \<Rightarrow> message list \<Rightarrow> subject \<Rightarrow> body \<Rightarrow> run" where
  "send_and_return env out subj body_html =
     (case send_email env subj body_html of
        Inl e \<Rightarrow> stopped out (Uncaught e)
      | Inr (msgs, sent) \<Rightarrow> returned (out @ msgs) sent)"

text \<open>\<^verbatim>\<open>if SEND_EMPTY_EMAIL: send_email(...)\<close> followed by the end of the run.\<close>

definition empty_result :: "config \<Rightarrow> environment \<Rightarrow> message list \<Rightarrow> subject \<Rightarrow> body \<Rightarrow> run" where
  "empty_result cfg env out subj body_html =
     (if send_empty_email cfg then send_and_return env out subj body_html
      else returned out [])"

text \<open>Step 6 of \<^verbatim>\<open>main\<close>: the final check and the send.\<close>

definition final_check_and_send ::
    "config \<Rightarrow> environment \<Rightarrow> message list \<Rightarrow> string \<Rightarrow> dataframe \<Rightarrow> run" where
  "final_check_and_send cfg env out today_str daily_classes =
     (if df_empty daily_classes then
        empty_result cfg env (out @ [AllFilteredOut]) (ScheduleSubject today_str) NoClassesBody
      else
        let out' = out @ [SendingEmail (length (rows daily_classes))]
        in (case format_email_body daily_classes today_str of
              Inl f \<Rightarrow> stopped out' f
            | Inr body_html \<Rightarrow>
                send_and_return env out' (UniScheduleSubject today_str) body_html))"

text \<open>The overrides of the day, from \<^verbatim>\<open>exception_rule = get_todays_exceptions()\<close> on.
  An object is taken for true when it has a member.\<close>

definition apply_exceptions_and_send ::
    "config \<Rightarrow> environment \<Rightarrow> message list \<Rightarrow> string \<Rightarrow> dataframe \<Rightarrow> run" where
  "apply_exceptions_and_send cfg env out today_str daily_classes =
     (case get_todays_exceptions (exceptions_file env) (today env) of
        (warnings, Inl e) \<Rightarrow> stopped (out @ warnings) (Uncaught e)
      | (warnings, Inr None) \<Rightarrow>
          final_check_and_send cfg env (out @ warnings) today_str daily_classes
      | (warnings, Inr (Some exception_rule)) \<Rightarrow>
          if exception_rule \<noteq> [] then
            let out' = out @ warnings
                       @ [FoundExceptions
                            (case dict_get exception_rule ''note'' of
                               None \<Rightarrow> JString ''No note'' | Some v \<Rightarrow> v)]
            in (case apply_exception_rule exception_rule daily_classes of
                  Inl f \<Rightarrow> stopped out' f
                | Inr remaining \<Rightarrow> final_check_and_send cfg env out' today_str remaining)
          else final_check_and_send cfg env (out @ warnings) today_str daily_classes)"

text \<open>Step 4 of \<^verbatim>\<open>main\<close>: the filter by the parity of the academic week.\<close>

definition filter_by_parity ::
    "config \<Rightarrow> environment \<Rightarrow> message list \<Rightarrow> string \<Rightarrow> dataframe \<Rightarrow> run" where
  "filter_by_parity cfg env out today_str daily_classes =
     (if ''WeekType'' \<notin> set (columns daily_classes) then
        returned (out @ [WeekTypeColumnNotFound]) []
      else
        let current_parity =
              academic_week_parity (semester_start_date cfg) (holiday_weeks_mondays cfg)
                (today env)
        in if current_parity = ''holiday'' then
             empty_result cfg env (out @ [EnjoyHoliday]) HolidaySubject HolidayBody
           else
             let out' = out @ [CurrentParity (capitalize current_parity)]
             in (case parity_filter current_parity daily_classes of
                   Inl f \<Rightarrow> stopped out' f
                 | Inr remaining \<Rightarrow>
                     apply_exceptions_and_send cfg env out' today_str remaining))"

text \<open>\<^verbatim>\<open>main\<close>, with the module constants as a configuration.\<close>

definition main_with :: "config \<Rightarrow> environment \<Rightarrow> run" where
  "main_with cfg env =
     (let today_day_name = strftime_A (today env);
          today_str = strftime_Ymd (today env);
          out = [Processing today_day_name today_str]
      in (case load_data (schedule_file env) of
            Inl e \<Rightarrow> returned (out @ [PrintedException e]) []
          | Inr df \<Rightarrow>
              if ''Day'' \<notin> set (columns df) then returned (out @ [DayColumnNotFound]) []
              else
                (case day_filter today_day_name df of
                   Inl f \<Rightarrow> stopped out f
                 | Inr daily_classes \<Rightarrow>
                     if df_empty daily_classes then
                       empty_result cfg env (out @ [NoClassesScheduled])
                         FreeDaySubject FreeDayBody
                     else filter_by_parity cfg env out today_str daily_classes)))"

definition main :: "environment \<Rightarrow> run" where
  "main env = main_with module_config env"

section \<open>The cancellations as the description states them\<close>

text \<open>
  The description of the override step speaks of substrings: an entry is cancelled when
  its Time is one of the cancelled hours, or its Course contains one of the cancelled
  course patterns as a substring, letter case ignored. These definitions follow that
  wording, for comparison with \<open>apply_exception_rule\<close>.
\<close>

definition contains_ignoring_case :: "string \<Rightarrow> string \<Rightarrow> bool" where
  "contains_ignoring_case pattern course = sublist (str_lower pattern) (str_lower course)"

definition spec_cancelled :: "string list \<Rightarrow> string list \<Rightarrow> cell \<Rightarrow> cell \<Rightarrow> bool" where
  "spec_cancelled hours patterns time_cell course_cell =
     ((case time_cell of None \<Rightarrow> False | Some t \<Rightarrow> t \<in> set hours)
      \<or> (case course_cell of
            None \<Rightarrow> False
          | Some course \<Rightarrow> list_ex (\<lambda>p. contains_ignoring_case p course) patterns))"

text \<open>A pattern in which no character is special to regular expressions.\<close>

definition plain_pattern :: "string \<Rightarrow> bool" where
  "plain_pattern p = list_all (\<lambda>c. c \<notin> set (''.|'' @ re_special)) p"

text \<open>A field of a rule that is absent, read as the empty list, or holds a list of
  strings.\<close>

definition strings_of_field :: "dict \<Rightarrow> string \<Rightarrow> string list option" where
  "strings_of_field d key =
     (case get_or_empty d key of
        JArray xs \<Rightarrow> if list_all is_string xs then Some (map string_of xs) else None
      | _ \<Rightarrow> None)"

section \<open>Properties of the week parity\<close>

lemma toordinal_examples:
  "toordinal (Date 2026 2 23) = 739670"
  "toordinal (Date 2026 3 2) = 739677"
  "toordinal (Date 2026 4 13) = 739719"
  "toordinal (Date 2026 4 20) = 739726"
  "toordinal (Date 2026 2 22) = 739669"
  "toordinal (Date 2026 4 16) = 739722"
  "toordinal (Date 2026 4 26) = 739732"
  by (simp_all add: toordinal_def days_before_year_def days_before_month_def
      DAYS_BEFORE_MONTH_def is_leap_def)

lemma week_monday_examples:
  "week_monday (Date 2026 2 23) = 739670"
  "week_monday (Date 2026 3 2) = 739677"
  "week_monday (Date 2026 4 13) = 739719"
  "week_monday (Date 2026 4 20) = 739726"
  "week_monday (Date 2026 2 22) = 739663"
  "week_monday (Date 2026 4 16) = 739719"
  "week_monday (Date 2026 4 26) = 739726"
  by (simp_all add: week_monday_def weekday_def toordinal_examples)

text \<open>The function in terms of the week's Monday and the quantities of its description.\<close>

lemma academic_week_parity_cases:
  "academic_week_parity start holidays d =
     (if week_monday d < week_monday start then ''all''
      else if week_monday d \<in> set (map toordinal holidays) then ''holiday''
      else if academic_week_index start holidays d mod 2 \<noteq> 0 then ''even''
      else ''odd'')"
  by (simp add: academic_week_parity_def academic_week_index_def calendar_weeks_elapsed_def
      holidays_passed_def week_monday_def Let_def)

lemma get_academic_week_parity_examples:
  "get_academic_week_parity (Date 2026 2 23) = ''odd''"
  "get_academic_week_parity (Date 2026 3 2) = ''even''"
  "get_academic_week_parity (Date 2026 4 13) = ''holiday''"
  "get_academic_week_parity (Date 2026 4 20) = ''even''"
  by (simp_all add: get_academic_week_parity_def SEMESTER_START_DATE_def
      HOLIDAY_WEEKS_MONDAYS_def academic_week_parity_cases academic_week_index_def
      calendar_weeks_elapsed_def holidays_passed_def week_monday_examples toordinal_examples)

text \<open>Every date from a Monday to the following Sunday has that Monday as its week's.\<close>

lemma week_monday_within_week:
  assumes "weekday hm = 0" and "toordinal hm \<le> toordinal d" and "toordinal d \<le> toordinal hm + 6"
  shows "week_monday d = toordinal hm"
  using assms unfolding week_monday_def weekday_def by presburger

text \<open>
  Claim C2. From the start week on and outside the holiday weeks, the calculator returns
  "even" when the academic week index (calendar weeks elapsed minus holiday weeks
  passed) is odd, and "odd" when it is even. With the semester starting on Monday
  2026-02-23 and the holiday week of Monday 2026-04-13 it returns "odd" for 2026-02-23,
  "even" for 2026-03-02, "holiday" for 2026-04-13 and "even" for 2026-04-20, where
  eight calendar weeks have elapsed, one holiday week has passed and the index is 7.
\<close>

theorem parity_from_academic_week_index:
  "(week_monday start \<le> week_monday d \<and> week_monday d \<notin> set (map toordinal holidays) \<longrightarrow>
      academic_week_parity start holidays d =
        (if odd (academic_week_index start holidays d) then ''even'' else ''odd''))
   \<and> academic_week_parity (Date 2026 2 23) [Date 2026 4 13] (Date 2026 2 23) = ''odd''
   \<and> academic_week_parity (Date 2026 2 23) [Date 2026 4 13] (Date 2026 3 2) = ''even''
   \<and> academic_week_parity (Date 2026 2 23) [Date 2026 4 13] (Date 2026 4 13) = ''holiday''
   \<and> academic_week_parity (Date 2026 2 23) [Date 2026 4 13] (Date 2026 4 20) = ''even''
   \<and> calendar_weeks_elapsed (Date 2026 2 23) (Date 2026 4 20) = 8
   \<and> holidays_passed [Date 2026 4 13] (Date 2026 4 20) = 1
   \<and> academic_week_index (Date 2026 2 23) [Date 2026 4 13] (Date 2026 4 20) = 7"
proof -
  have general:
    "week_monday start \<le> week_monday d \<and> week_monday d \<notin> set (map toordinal holidays) \<longrightarrow>
      academic_week_parity start holidays d =
        (if odd (academic_week_index start holidays d) then ''even'' else ''odd'')"
    by (simp add: academic_week_parity_cases odd_iff_mod_2_eq_one)
  have examples:
    "academic_week_parity (Date 2026 2 23) [Date 2026 4 13] (Date 2026 2 23) = ''odd''"
    "academic_week_parity (Date 2026 2 23) [Date 2026 4 13] (Date 2026 3 2) = ''even''"
    "academic_week_parity (Date 2026 2 23) [Date 2026 4 13] (Date 2026 4 13) = ''holiday''"
    "academic_week_parity (Date 2026 2 23) [Date 2026 4 13] (Date 2026 4 20) = ''even''"
    by (simp_all add: academic_week_parity_cases academic_week_index_def
        calendar_weeks_elapsed_def holidays_passed_def week_monday_examples toordinal_examples)
  have counts:
    "calendar_weeks_elapsed (Date 2026 2 23) (Date 2026 4 20) = 8"
    "holidays_passed [Date 2026 4 13] (Date 2026 4 20) = 1"
    "academic_week_index (Date 2026 2 23) [Date 2026 4 13] (Date 2026 4 20) = 7"
    by (simp_all add: academic_week_index_def calendar_weeks_elapsed_def holidays_passed_def
        week_monday_examples toordinal_examples)
  from general examples counts show ?thesis by blast
qed

theorem parity_from_academic_week_index_witness:
  "week_monday (Date 2026 2 23) \<le> week_monday (Date 2026 3 2)
   \<and> week_monday (Date 2026 3 2) \<notin> set (map toordinal [Date 2026 4 13])
   \<and> odd (academic_week_index (Date 2026 2 23) [Date 2026 4 13] (Date 2026 3 2))
   \<and> academic_week_parity (Date 2026 2 23) [Date 2026 4 13] (Date 2026 3 2) = ''even''"
  using parity_from_academic_week_index [of "Date 2026 2 23" "Date 2026 3 2" "[Date 2026 4 13]"]
  by (simp add: week_monday_examples toordinal_examples academic_week_index_def
      calendar_weeks_elapsed_def holidays_passed_def)

text \<open>
  Claim C3. For every date whose week's Monday precedes the Monday of the start week, the
  calculator returns "all", whatever the holiday weeks are.
\<close>

theorem parity_before_semester:
  "week_monday d < week_monday start \<Longrightarrow> academic_week_parity start holidays d = ''all''"
  by (simp add: academic_week_parity_cases)

theorem parity_before_semester_witness:
  "week_monday (Date 2026 2 22) < week_monday (Date 2026 2 23)
   \<and> academic_week_parity (Date 2026 2 23) [Date 2026 4 13] (Date 2026 2 22) = ''all''"
  using parity_before_semester [of "Date 2026 2 22" "Date 2026 2 23" "[Date 2026 4 13]"]
  by (simp add: week_monday_examples)

text \<open>
  Claim C4. For every date whose week's Monday is not before the start week and is one of
  the configured holiday Mondays, the calculator returns "holiday"; and so it does for
  every date from a configured holiday Monday to the Sunday after it.
\<close>

theorem parity_holiday_week:
  "(week_monday start \<le> week_monday d \<and> week_monday d \<in> set (map toordinal holidays) \<longrightarrow>
      academic_week_parity start holidays d = ''holiday'')
   \<and> (hm \<in> set holidays \<and> weekday hm = 0 \<and> week_monday start \<le> toordinal hm
        \<and> toordinal hm \<le> toordinal d' \<and> toordinal d' \<le> toordinal hm + 6 \<longrightarrow>
      academic_week_parity start holidays d' = ''holiday'')"
proof (intro conjI impI)
  assume "week_monday start \<le> week_monday d \<and> week_monday d \<in> set (map toordinal holidays)"
  then show "academic_week_parity start holidays d = ''holiday''"
    by (simp add: academic_week_parity_cases)
next
  assume h: "hm \<in> set holidays \<and> weekday hm = 0 \<and> week_monday start \<le> toordinal hm
        \<and> toordinal hm \<le> toordinal d' \<and> toordinal d' \<le> toordinal hm + 6"
  then have "week_monday d' = toordinal hm"
    using week_monday_within_week [of hm d'] by simp
  with h show "academic_week_parity start holidays d' = ''holiday''"
    by (simp add: academic_week_parity_cases)
qed

theorem parity_holiday_week_witness:
  "week_monday (Date 2026 2 23) \<le> week_monday (Date 2026 4 16)
   \<and> week_monday (Date 2026 4 16) \<in> set (map toordinal [Date 2026 4 13])
   \<and> Date 2026 4 13 \<in> set [Date 2026 4 13] \<and> weekday (Date 2026 4 13) = 0
   \<and> toordinal (Date 2026 4 13) \<le> toordinal (Date 2026 4 16)
   \<and> toordinal (Date 2026 4 16) \<le> toordinal (Date 2026 4 13) + 6
   \<and> academic_week_parity (Date 2026 2 23) [Date 2026 4 13] (Date 2026 4 16) = ''holiday''"
  using parity_holiday_week [of "Date 2026 2 23" "Date 2026 4 16" "[Date 2026 4 13]"
      "Date 2026 4 13" "Date 2026 4 16"]
  by (simp add: week_monday_examples toordinal_examples weekday_def)

text \<open>
  Claim C10. The result of the calculator depends on the input date only through the
  Monday of its week: two dates of the same week get the same value, one of "all",
  "holiday", "odd" and "even", for the same semester start and holiday weeks.
\<close>

theorem parity_depends_on_week_monday:
  "week_monday d1 = week_monday d2 \<Longrightarrow>
     academic_week_parity start holidays d1 = academic_week_parity start holidays d2
     \<and> academic_week_parity start holidays d1 \<in> {''all'', ''holiday'', ''odd'', ''even''}"
  by (simp add: academic_week_parity_cases academic_week_index_def calendar_weeks_elapsed_def
      holidays_passed_def)

theorem parity_depends_on_week_monday_witness:
  "week_monday (Date 2026 4 20) = week_monday (Date 2026 4 26)
   \<and> academic_week_parity (Date 2026 2 23) [Date 2026 4 13] (Date 2026 4 26) = ''even''
   \<and> academic_week_parity (Date 2026 2 23) [Date 2026 4 13] (Date 2026 4 20)
       = academic_week_parity (Date 2026 2 23) [Date 2026 4 13] (Date 2026 4 26)"
  using parity_depends_on_week_monday [of "Date 2026 4 20" "Date 2026 4 26" "Date 2026 2 23"
      "[Date 2026 4 13]"]
  by (simp add: week_monday_examples toordinal_examples academic_week_parity_cases
      academic_week_index_def calendar_weeks_elapsed_def holidays_passed_def)

section \<open>Properties of the filters\<close>

lemma select_by_predicate:
  "map snd (filter fst (zip (map g xs) xs)) = filter g xs"
  by (induction xs) auto

lemma select_rows_map:
  "select_rows df (map g (rows df)) = df\<lparr>rows := filter g (rows df)\<rparr>"
  by (simp add: select_rows_def select_by_predicate)

lemma str_lower_all: "str_lower ''all'' = ''all''"
  by (simp add: str_lower_def lower_char_def UPPER_CASE_def LOWER_CASE_def)

lemma academic_week_parity_labels:
  "academic_week_parity start holidays d \<in> {''all'', ''holiday'', ''odd'', ''even''}"
  by (simp add: academic_week_parity_cases)

text \<open>A label that one column bears selects that column.\<close>

lemma counted_label: "count_list cols c = 1 \<Longrightarrow> c \<in> set cols"
  by (rule ccontr) (simp add: count_list_0_iff)

lemma getitem_one:
  "count_list (columns df) c = 1 \<Longrightarrow>
     getitem df c = OneColumn (map (\<lambda>r. cell_of (columns df) r c) (rows df))"
  by (simp add: getitem_def counted_label)

lemma str_accessor_one:
  "count_list (columns df) c = 1 \<Longrightarrow>
     str_accessor df c = Inr (map (\<lambda>r. cell_of (columns df) r c) (rows df))"
  by (simp add: str_accessor_def getitem_one)

text \<open>On a table with one WeekType column the parity filter keeps the rows whose week
  type, lower-cased and with a missing cell read as "all", is "all" or the current
  parity.\<close>

lemma parity_filter_rows:
  "count_list (columns df) ''WeekType'' = 1 \<Longrightarrow>
   parity_filter p df =
     Inr (df\<lparr>rows :=
            filter (\<lambda>r. str_lower (fillna ''all'' (cell_of (columns df) r ''WeekType'')) = ''all''
                      \<or> str_lower (fillna ''all'' (cell_of (columns df) r ''WeekType'')) = p)
              (rows df)\<rparr>)"
  by (simp add: parity_filter_def str_accessor_one select_rows_map o_def)

text \<open>When several columns bear the label WeekType, the filter raises.\<close>

lemma parity_filter_repeated_label:
  "parity_filter ''odd''
     \<lparr>columns = [''Day'', ''WeekType'', ''WeekType''],
      rows = [[Some ''Monday'', None, Some ''odd'']]\<rparr>
   = Inl (Uncaught AttributeError)"
  by (simp add: parity_filter_def str_accessor_def getitem_def)

text \<open>
  Claim C1, as stated: outside holiday weeks the parity filter includes every entry
  whose WeekType is missing or is none of "all", "odd" and "even" after lower-casing.
  The code fills only missing cells with "all"; a cell that holds another text is
  compared as it is and the entry is dropped. In an "odd" week, the entry of week type
  "Weekly" is removed.
\<close>

theorem unrecognized_week_type_is_dropped:
  "str_lower ''Weekly'' \<notin> {''all'', ''odd'', ''even''}
   \<and> parity_filter ''odd''
         \<lparr>columns = [''Day'', ''WeekType''], rows = [[Some ''Monday'', Some ''Weekly'']]\<rparr>
       = Inr \<lparr>columns = [''Day'', ''WeekType''], rows = []\<rparr>"
  by (simp add: parity_filter_def str_accessor_def getitem_def select_rows_def cell_of_def
      fillna_def str_lower_def lower_char_def UPPER_CASE_def LOWER_CASE_def)

text \<open>
  Claim C1, amended: for a table in which exactly one column is labelled WeekType, and
  outside holiday weeks, the parity filter includes every entry whose WeekType is
  missing (a missing value counts as "all"), and it excludes every entry whose WeekType
  is present and is none of "all", "odd" and "even" after lower-casing.
\<close>

theorem parity_filter_missing_and_unrecognized:
  assumes "count_list (columns df) ''WeekType'' = 1" and "r \<in> set (rows df)"
    and "p = academic_week_parity start holidays d" and "p \<noteq> ''holiday''"
  shows "\<exists>df'. parity_filter p df = Inr df'
           \<and> (cell_of (columns df) r ''WeekType'' = None \<longrightarrow> r \<in> set (rows df'))
           \<and> (\<forall>s. cell_of (columns df) r ''WeekType'' = Some s
                    \<and> str_lower s \<notin> {''all'', ''odd'', ''even''} \<longrightarrow> r \<notin> set (rows df'))"
proof -
  have p: "p \<in> {''all'', ''odd'', ''even''}"
    using academic_week_parity_labels [of start holidays d] assms(3,4) by auto
  show ?thesis
    using assms(2) p
    by (auto simp add: parity_filter_rows [OF assms(1)] fillna_def str_lower_all)
qed

theorem parity_filter_missing_and_unrecognized_witness:
  "count_list (columns \<lparr>columns = [''Day'', ''WeekType''],
       rows = [[Some ''Monday'', None], [Some ''Monday'', Some ''Weekly'']]\<rparr>) ''WeekType'' = 1
   \<and> academic_week_parity (Date 2026 2 23) [Date 2026 4 13] (Date 2026 3 2) = ''even''
   \<and> parity_filter ''even''
        \<lparr>columns = [''Day'', ''WeekType''],
         rows = [[Some ''Monday'', None], [Some ''Monday'', Some ''Weekly'']]\<rparr>
       = Inr \<lparr>columns = [''Day'', ''WeekType''], rows = [[Some ''Monday'', None]]\<rparr>"
proof -
  let ?df = "\<lparr>columns = [''Day'', ''WeekType''],
       rows = [[Some ''Monday'', None], [Some ''Monday'', Some ''Weekly'']]\<rparr>"
  have par: "academic_week_parity (Date 2026 2 23) [Date 2026 4 13] (Date 2026 3 2) = ''even''"
    by (simp add: academic_week_parity_cases academic_week_index_def
        calendar_weeks_elapsed_def holidays_passed_def week_monday_examples toordinal_examples)
  have col: "count_list (columns ?df) ''WeekType'' = 1" by simp
  have missing: "[Some ''Monday'', None] \<in> set (rows ?df)" by simp
  have other: "[Some ''Monday'', Some ''Weekly''] \<in> set (rows ?df)" by simp
  have low: "str_lower ''Weekly'' \<notin> {''all'', ''odd'', ''even''}"
    by (simp add: str_lower_def lower_char_def UPPER_CASE_def LOWER_CASE_def)
  from parity_filter_missing_and_unrecognized [OF col missing par [symmetric]]
  obtain df1 where f1: "parity_filter ''even'' ?df = Inr df1"
    and in1: "[Some ''Monday'', None] \<in> set (rows df1)"
    by (auto simp add: cell_of_def)
  from parity_filter_missing_and_unrecognized [OF col other par [symmetric]] low
  obtain df2 where f2: "parity_filter ''even'' ?df = Inr df2"
    and out2: "[Some ''Monday'', Some ''Weekly''] \<notin> set (rows df2)"
    by (auto simp add: cell_of_def)
  have all: "parity_filter ''even'' ?df
      = Inr \<lparr>columns = [''Day'', ''WeekType''], rows = [[Some ''Monday'', None]]\<rparr>"
    by (simp add: parity_filter_def str_accessor_def getitem_def select_rows_def cell_of_def
        fillna_def str_lower_def lower_char_def UPPER_CASE_def LOWER_CASE_def)
  from col par all f1 in1 f2 out2 show ?thesis by simp
qed

section \<open>Properties of the override lookup\<close>

text \<open>On a list of objects the loop returns the first one whose date is today's, and
  nothing when there is none.\<close>

lemma first_match_none:
  "list_all (\<lambda>d. dict_get d ''date'' \<noteq> Some (JString ts)) ds \<Longrightarrow>
     first_match ts (map JObject ds) = Inr None"
  by (induction ds) auto

lemma first_match_after_prefix:
  "list_all (\<lambda>d. dict_get d ''date'' \<noteq> Some (JString ts)) pre \<Longrightarrow>
   dict_get d ''date'' = Some (JString ts) \<Longrightarrow>
     first_match ts (map JObject pre @ JObject d # post) = Inr (Some d)"
  by (induction pre) auto

lemma get_todays_exceptions_list:
  "list_all (\<lambda>d. dict_get d ''date'' \<noteq> Some (JString (strftime_Ymd today_date))) pre \<Longrightarrow>
   dict_get d ''date'' = Some (JString (strftime_Ymd today_date)) \<Longrightarrow>
     get_todays_exceptions (ExceptionsJson (JArray (map JObject pre @ JObject d # post)))
       today_date = ([], Inr (Some d))"
  by (simp add: get_todays_exceptions_def iterate_def first_match_after_prefix)

lemma get_todays_exceptions_no_match:
  "list_all (\<lambda>d. dict_get d ''date'' \<noteq> Some (JString (strftime_Ymd today_date))) ds \<Longrightarrow>
     get_todays_exceptions (ExceptionsJson (JArray (map JObject ds))) today_date
       = ([], Inr None)"
  by (simp add: get_todays_exceptions_def iterate_def first_match_none)

text \<open>No file gives nothing and prints nothing; a file that does not decode gives nothing
  and prints the warning; in both cases the run goes on to its final step.\<close>

lemma get_todays_exceptions_absent:
  "get_todays_exceptions NoExceptionsFile today_date = ([], Inr None)"
  by (simp add: get_todays_exceptions_def)

lemma get_todays_exceptions_undecodable:
  "get_todays_exceptions MalformedJson today_date = ([MalformedJsonWarning], Inr None)"
  by (simp add: get_todays_exceptions_def)

lemma apply_exceptions_and_send_absent:
  "exceptions_file env = NoExceptionsFile \<Longrightarrow>
     apply_exceptions_and_send cfg env lines ts daily
       = final_check_and_send cfg env lines ts daily"
  by (simp add: apply_exceptions_and_send_def get_todays_exceptions_def)

lemma apply_exceptions_and_send_undecodable:
  "exceptions_file env = MalformedJson \<Longrightarrow>
     apply_exceptions_and_send cfg env lines ts daily
       = final_check_and_send cfg env (lines @ [MalformedJsonWarning]) ts daily"
  by (simp add: apply_exceptions_and_send_def get_todays_exceptions_def)

text \<open>Facts about the dates and the table of the examples below.\<close>

lemma monday_2026_03_02:
  "strftime_A (Date 2026 3 2) = ''Monday''"
  "strftime_Ymd (Date 2026 3 2) = ''2026-03-02''"
  "academic_week_parity SEMESTER_START_DATE HOLIDAY_WEEKS_MONDAYS (Date 2026 3 2) = ''even''"
  "capitalize ''even'' = ''Even''"
  by (simp_all add: strftime_A_def DAY_NAMES_def weekday_def toordinal_examples
      strftime_Ymd_def digit_def SEMESTER_START_DATE_def HOLIDAY_WEEKS_MONDAYS_def
      academic_week_parity_cases academic_week_index_def calendar_weeks_elapsed_def
      holidays_passed_def week_monday_examples capitalize_def upper_char_def lower_char_def
      UPPER_CASE_def LOWER_CASE_def)

text \<open>
  Claim C6 says that a malformed override source yields a warning and no rule, the run
  continuing as if there were no exceptions. The function catches the error of decoding
  only. A file that decodes, but to something else than a list of objects, is not
  caught: for a file that holds one rule as an object, not wrapped in a list, the loop
  runs over the keys of the object, the first key is a string, and the call of its
  \<^verbatim>\<open>get\<close> raises \<^verbatim>\<open>AttributeError\<close>, which ends the run after the line of the week
  parity.
\<close>

theorem main_override_object_raises:
  "get_todays_exceptions
     (ExceptionsJson
        (JObject [(''date'', JString ''2026-03-02''),
                  (''cancel_hours'', JArray [JString ''10:00''])]))
     (Date 2026 3 2)
     = ([], Inl AttributeError)
   \<and> main \<lparr>today = Date 2026 3 2,
         schedule_file = Sheet [''Day'', ''WeekType'', ''Time'', ''Course'', ''Room'', ''Type'']
           [[Some ''Monday'', Some ''all'', Some ''10:00'', Some ''Mathematics 101'',
             Some ''A1'', Some ''Lecture'']],
         exceptions_file =
           ExceptionsJson
             (JObject [(''date'', JString ''2026-03-02''),
                       (''cancel_hours'', JArray [JString ''10:00''])]),
         EMAIL_USER = Some ''me@example.org'', EMAIL_PASS = Some ''secret'',
         smtp_accepts = True\<rparr>
     = \<lparr>printed = [Processing ''Monday'' ''2026-03-02'', CurrentParity ''Even''],
        attempts = [], outcome = Stopped (Uncaught AttributeError)\<rparr>"
proof -
  let ?df = "\<lparr>columns = [''Day'', ''WeekType'', ''Time'', ''Course'', ''Room'', ''Type''],
       rows = [[Some ''Monday'', Some ''all'', Some ''10:00'', Some ''Mathematics 101'',
                Some ''A1'', Some ''Lecture'']]\<rparr>"
  have lookup: "get_todays_exceptions
     (ExceptionsJson
        (JObject [(''date'', JString ''2026-03-02''),
                  (''cancel_hours'', JArray [JString ''10:00''])]))
     (Date 2026 3 2)
     = ([], Inl AttributeError)"
    by (simp add: get_todays_exceptions_def iterate_def)
  have load: "load_data (Sheet [''Day'', ''WeekType'', ''Time'', ''Course'', ''Room'', ''Type'']
           [[Some ''Monday'', Some ''all'', Some ''10:00'', Some ''Mathematics 101'',
             Some ''A1'', Some ''Lecture'']]) = Inr ?df"
    by (simp add: load_data_def strip_def is_space_def)
  have day: "day_filter ''Monday'' ?df = Inr ?df"
    by (simp add: day_filter_def str_accessor_def getitem_def select_rows_def cell_of_def
        str_lower_def lower_char_def UPPER_CASE_def LOWER_CASE_def)
  have week: "parity_filter ''even'' ?df = Inr ?df"
    by (simp add: parity_filter_def str_accessor_def getitem_def select_rows_def cell_of_def
        fillna_def str_lower_def lower_char_def UPPER_CASE_def LOWER_CASE_def)
  have run: "main \<lparr>today = Date 2026 3 2,
         schedule_file = Sheet [''Day'', ''WeekType'', ''Time'', ''Course'', ''Room'', ''Type'']
           [[Some ''Monday'', Some ''all'', Some ''10:00'', Some ''Mathematics 101'',
             Some ''A1'', Some ''Lecture'']],
         exceptions_file =
           ExceptionsJson
             (JObject [(''date'', JString ''2026-03-02''),
                       (''cancel_hours'', JArray [JString ''10:00''])]),
         EMAIL_USER = Some ''me@example.org'', EMAIL_PASS = Some ''secret'',
         smtp_accepts = True\<rparr>
     = \<lparr>printed = [Processing ''Monday'' ''2026-03-02'', CurrentParity ''Even''],
        attempts = [], outcome = Stopped (Uncaught AttributeError)\<rparr>"
    by (simp add: main_def main_with_def module_config_def monday_2026_03_02 load day
        df_empty_def filter_by_parity_def week apply_exceptions_and_send_def lookup
        stopped_def Let_def)
  from lookup run show ?thesis by blast
qed

section \<open>Properties of the run\<close>

lemma send_email_no_credentials:
  "unset_or_empty (EMAIL_USER env) \<or> unset_or_empty (EMAIL_PASS env) \<Longrightarrow>
     send_email env subj b = Inr ([CredentialsMissing], [])"
  by (simp add: send_email_def)

lemma send_and_return_no_credentials:
  "unset_or_empty (EMAIL_USER env) \<or> unset_or_empty (EMAIL_PASS env) \<Longrightarrow>
     send_and_return env lines subj b = returned (lines @ [CredentialsMissing]) []"
  by (simp add: send_and_return_def send_email_no_credentials)

lemma attempts_returned: "attempts (returned lines sent) = sent"
  by (simp add: returned_def)

lemma attempts_stopped: "attempts (stopped lines f) = []"
  by (simp add: stopped_def)

lemma empty_result_no_credentials:
  "unset_or_empty (EMAIL_USER env) \<or> unset_or_empty (EMAIL_PASS env) \<Longrightarrow>
     attempts (empty_result cfg env lines subj b) = []"
  by (simp add: empty_result_def send_and_return_no_credentials attempts_returned)

lemma final_check_and_send_no_credentials:
  "unset_or_empty (EMAIL_USER env) \<or> unset_or_empty (EMAIL_PASS env) \<Longrightarrow>
     attempts (final_check_and_send cfg env lines ts daily) = []"
  by (simp add: final_check_and_send_def empty_result_no_credentials
      send_and_return_no_credentials attempts_returned attempts_stopped Let_def
      split: sum.splits)

lemma apply_exceptions_and_send_no_credentials:
  "unset_or_empty (EMAIL_USER env) \<or> unset_or_empty (EMAIL_PASS env) \<Longrightarrow>
     attempts (apply_exceptions_and_send cfg env lines ts daily) = []"
  by (simp add: apply_exceptions_and_send_def final_check_and_send_no_credentials
      attempts_stopped Let_def split: sum.splits option.splits prod.splits)

lemma filter_by_parity_no_credentials:
  "unset_or_empty (EMAIL_USER env) \<or> unset_or_empty (EMAIL_PASS env) \<Longrightarrow>
     attempts (filter_by_parity cfg env lines ts daily) = []"
  by (simp add: filter_by_parity_def apply_exceptions_and_send_no_credentials
      empty_result_no_credentials attempts_returned attempts_stopped Let_def
      split: sum.splits)

lemma main_with_no_credentials:
  "unset_or_empty (EMAIL_USER env) \<or> unset_or_empty (EMAIL_PASS env) \<Longrightarrow>
     attempts (main_with cfg env) = []"
  by (simp add: main_with_def filter_by_parity_no_credentials
      empty_result_no_credentials attempts_returned attempts_stopped Let_def
      split: sum.splits)

text \<open>With credentials, an address of several lines ends the run with an exception,
  while an address that ends in a line feed is taken.\<close>

lemma send_email_address_of_several_lines:
  "send_email \<lparr>today = Date 2026 3 2, schedule_file = NoFile,
        exceptions_file = NoExceptionsFile,
        EMAIL_USER = Some [CHR ''a'', CHR 0x0A, CHR ''b''],
        EMAIL_PASS = Some ''secret'', smtp_accepts = True\<rparr> FreeDaySubject FreeDayBody
     = Inl ValueError"
  "several_lines [CHR ''a'', CHR 0x0D, CHR 0x0A] = False"
  by (simp_all add: send_email_def unset_or_empty_def fillna_def is_line_boundary_def)

text \<open>
  Claim C8. When either credential variable is unset or empty, the send operation prints
  the error and hands nothing to the mail relay; it raises nothing, so the step of the
  run that called it returns normally. No run with such credentials attempts a
  delivery.
\<close>

theorem send_email_without_credentials:
  "unset_or_empty (EMAIL_USER env) \<or> unset_or_empty (EMAIL_PASS env) \<Longrightarrow>
     send_email env subj b = Inr ([CredentialsMissing], [])
     \<and> send_and_return env lines subj b
         = \<lparr>printed = lines @ [CredentialsMissing], attempts = [], outcome = Returned\<rparr>
     \<and> attempts (main_with cfg env) = []"
  by (simp add: send_email_no_credentials send_and_return_no_credentials returned_def
      main_with_no_credentials)

theorem send_email_without_credentials_witness:
  "unset_or_empty (EMAIL_PASS \<lparr>today = Date 2026 3 2, schedule_file = NoFile,
        exceptions_file = NoExceptionsFile, EMAIL_USER = Some ''me@example.org'',
        EMAIL_PASS = Some [], smtp_accepts = True\<rparr>)
   \<and> send_email \<lparr>today = Date 2026 3 2, schedule_file = NoFile,
        exceptions_file = NoExceptionsFile, EMAIL_USER = Some ''me@example.org'',
        EMAIL_PASS = Some [], smtp_accepts = True\<rparr> FreeDaySubject FreeDayBody
      = Inr ([CredentialsMissing], [])"
proof -
  let ?env = "\<lparr>today = Date 2026 3 2, schedule_file = NoFile,
        exceptions_file = NoExceptionsFile, EMAIL_USER = Some ''me@example.org'',
        EMAIL_PASS = Some [], smtp_accepts = True\<rparr>"
  have h: "unset_or_empty (EMAIL_PASS ?env)"
    by (simp add: unset_or_empty_def)
  then have "unset_or_empty (EMAIL_USER ?env) \<or> unset_or_empty (EMAIL_PASS ?env)" ..
  from send_email_without_credentials [OF this] h show ?thesis by blast
qed

text \<open>On a table with one Day column the weekday filter keeps the rows whose Day is the
  name of the weekday, letter case ignored; a table with no Day column or with several
  makes it raise.\<close>

lemma day_filter_rows:
  "count_list (columns df) ''Day'' = 1 \<Longrightarrow>
   day_filter name df =
     Inr (df\<lparr>rows :=
            filter (\<lambda>r. map_option str_lower (cell_of (columns df) r ''Day'')
                          = Some (str_lower name)) (rows df)\<rparr>)"
  by (simp add: day_filter_def str_accessor_one select_rows_map o_def)

lemma day_filter_needs_column:
  "day_filter name df = Inr daily \<Longrightarrow> ''Day'' \<in> set (columns df)"
  by (auto simp add: day_filter_def str_accessor_def getitem_def split: if_splits)

lemma day_filter_repeated_label:
  "load_data (Sheet [''Day'', ''Day '', ''WeekType''] [[Some ''Tuesday'', None, Some ''all'']])
     = Inr \<lparr>columns = [''Day'', ''Day'', ''WeekType''],
            rows = [[Some ''Tuesday'', None, Some ''all'']]\<rparr>"
  "day_filter ''Monday''
     \<lparr>columns = [''Day'', ''Day'', ''WeekType''], rows = [[Some ''Tuesday'', None, Some ''all'']]\<rparr>
     = Inl (Uncaught AttributeError)"
  by (simp_all add: load_data_def strip_def is_space_def day_filter_def str_accessor_def
      getitem_def)

lemma empty_result_reads:
  "empty_result (cfg\<lparr>semester_start_date := s, holiday_weeks_mondays := hs\<rparr>)
       (env\<lparr>exceptions_file := x\<rparr>) lines subj b
     = empty_result cfg env lines subj b"
  by (simp add: empty_result_def send_and_return_def send_email_def Let_def)

text \<open>
  Claim C9. When the table is loaded and the weekday filter leaves no entries, the run
  ends at once with the "no classes" line. Its result is that of the empty-result
  handling alone: it is the same for every semester start, every list of holiday weeks
  and every override file, and with the configuration of the module nothing is sent.
  The filter leaves no entries when the one Day column has today's weekday name in no
  row, letter case ignored.
\<close>

theorem no_classes_today_ends_run:
  assumes "load_data (schedule_file env) = Inr df"
    and "day_filter (strftime_A (today env)) df = Inr daily"
    and "rows daily = []"
  shows "main_with cfg env
           = empty_result cfg env
               [Processing (strftime_A (today env)) (strftime_Ymd (today env)),
                NoClassesScheduled] FreeDaySubject FreeDayBody
         \<and> main_with (cfg\<lparr>semester_start_date := s, holiday_weeks_mondays := hs\<rparr>)
               (env\<lparr>exceptions_file := x\<rparr>) = main_with cfg env
         \<and> main env
             = \<lparr>printed = [Processing (strftime_A (today env)) (strftime_Ymd (today env)),
                           NoClassesScheduled],
                attempts = [], outcome = Returned\<rparr>
         \<and> (count_list (columns df) ''Day'' = 1 \<longrightarrow>
               list_all (\<lambda>r. map_option str_lower (cell_of (columns df) r ''Day'')
                             \<noteq> Some (str_lower (strftime_A (today env)))) (rows df))"
proof -
  have col: "''Day'' \<in> set (columns df)"
    using day_filter_needs_column [OF assms(2)] .
  have run: "main_with c env =
      empty_result c env
        [Processing (strftime_A (today env)) (strftime_Ymd (today env)), NoClassesScheduled]
        FreeDaySubject FreeDayBody" for c
    using assms col by (simp add: main_with_def df_empty_def Let_def)
  have run': "main_with c (env\<lparr>exceptions_file := x\<rparr>) =
      empty_result c (env\<lparr>exceptions_file := x\<rparr>)
        [Processing (strftime_A (today env)) (strftime_Ymd (today env)), NoClassesScheduled]
        FreeDaySubject FreeDayBody" for c
    using assms col by (simp add: main_with_def df_empty_def Let_def)
  have indep: "main_with (cfg\<lparr>semester_start_date := s, holiday_weeks_mondays := hs\<rparr>)
               (env\<lparr>exceptions_file := x\<rparr>) = main_with cfg env"
    by (simp only: run run' empty_result_reads)
  have module: "main env
             = \<lparr>printed = [Processing (strftime_A (today env)) (strftime_Ymd (today env)),
                           NoClassesScheduled],
                attempts = [], outcome = Returned\<rparr>"
    by (simp add: main_def run empty_result_def module_config_def SEND_EMPTY_EMAIL_def
        returned_def)
  have no_row: "list_all (\<lambda>r. map_option str_lower (cell_of (columns df) r ''Day'')
                             \<noteq> Some (str_lower (strftime_A (today env)))) (rows df)"
    if one: "count_list (columns df) ''Day'' = 1"
  proof -
    from day_filter_rows [OF one, of "strftime_A (today env)"] assms(2,3)
    have "filter (\<lambda>r. map_option str_lower (cell_of (columns df) r ''Day'')
                          = Some (str_lower (strftime_A (today env)))) (rows df) = []"
      by auto
    then show ?thesis
      by (simp add: filter_empty_conv list_all_iff)
  qed
  from run [of cfg] indep module no_row show ?thesis by blast
qed

theorem no_classes_today_ends_run_witness:
  "day_filter ''Monday''
      \<lparr>columns = [''Day'', ''WeekType'', ''Time'', ''Course'', ''Room'', ''Type''],
       rows = [[Some ''Tuesday'', Some ''odd'', Some ''10:00'', Some ''Physics'', Some ''B2'',
                Some ''Lab'']]\<rparr>
     = Inr \<lparr>columns = [''Day'', ''WeekType'', ''Time'', ''Course'', ''Room'', ''Type''],
            rows = []\<rparr>
   \<and> main \<lparr>today = Date 2026 3 2,
         schedule_file = Sheet [''Day'', ''WeekType'', ''Time'', ''Course'', ''Room'', ''Type'']
           [[Some ''Tuesday'', Some ''odd'', Some ''10:00'', Some ''Physics'', Some ''B2'',
             Some ''Lab'']],
         exceptions_file = MalformedJson, EMAIL_USER = Some ''me@example.org'',
         EMAIL_PASS = Some ''secret'', smtp_accepts = True\<rparr>
     = \<lparr>printed = [Processing ''Monday'' ''2026-03-02'', NoClassesScheduled],
        attempts = [], outcome = Returned\<rparr>"
proof -
  let ?env = "\<lparr>today = Date 2026 3 2,
         schedule_file = Sheet [''Day'', ''WeekType'', ''Time'', ''Course'', ''Room'', ''Type'']
           [[Some ''Tuesday'', Some ''odd'', Some ''10:00'', Some ''Physics'', Some ''B2'',
             Some ''Lab'']],
         exceptions_file = MalformedJson, EMAIL_USER = Some ''me@example.org'',
         EMAIL_PASS = Some ''secret'', smtp_accepts = True\<rparr>"
  let ?df = "\<lparr>columns = [''Day'', ''WeekType'', ''Time'', ''Course'', ''Room'', ''Type''],
         rows = [[Some ''Tuesday'', Some ''odd'', Some ''10:00'', Some ''Physics'', Some ''B2'',
             Some ''Lab'']]\<rparr>"
  let ?daily = "\<lparr>columns = [''Day'', ''WeekType'', ''Time'', ''Course'', ''Room'', ''Type''],
         rows = []\<rparr>"
  have load: "load_data (schedule_file ?env) = Inr ?df"
    by (simp add: load_data_def strip_def is_space_def)
  have day: "day_filter ''Monday'' ?df = Inr ?daily"
    by (simp add: day_filter_def str_accessor_def getitem_def select_rows_def cell_of_def
        str_lower_def lower_char_def UPPER_CASE_def LOWER_CASE_def)
  then have day': "day_filter (strftime_A (today ?env)) ?df = Inr ?daily"
    by (simp add: monday_2026_03_02)
  have none: "rows ?daily = []" by simp
  from no_classes_today_ends_run [OF load day' none] day
  show ?thesis by (simp add: monday_2026_03_02)
qed

text \<open>The structural failures that the run reports: no file, a file that cannot be read, no
  Day column, and no WeekType column when some class is scheduled today.\<close>

lemma main_with_load_failure:
  "load_data (schedule_file env) = Inl e \<Longrightarrow>
     main_with cfg env
       = returned [Processing (strftime_A (today env)) (strftime_Ymd (today env)),
                   PrintedException e] []"
  by (simp add: main_with_def Let_def)

lemma main_with_no_day_column:
  "load_data (schedule_file env) = Inr df \<Longrightarrow> ''Day'' \<notin> set (columns df) \<Longrightarrow>
     main_with cfg env
       = returned [Processing (strftime_A (today env)) (strftime_Ymd (today env)),
                   DayColumnNotFound] []"
  by (simp add: main_with_def Let_def)

lemma filter_by_parity_no_week_type_column:
  "''WeekType'' \<notin> set (columns daily) \<Longrightarrow>
     filter_by_parity cfg env lines ts daily = returned (lines @ [WeekTypeColumnNotFound]) []"
  by (simp add: filter_by_parity_def)

text \<open>
  Claim C5 says that a schedule without one of the columns Day, WeekType, Time, Course,
  Room and Type makes the run print a diagnostic and return normally, with no uncaught
  exception. The run checks the columns Day and WeekType only. On a Monday of an "even"
  week, a table with a class for Monday and no Time column passes both checks and both
  filters, and the rendering of the message body raises \<^verbatim>\<open>KeyError\<close>, which nothing
  catches.
\<close>

theorem main_missing_time_column_raises:
  "main \<lparr>today = Date 2026 3 2,
         schedule_file = Sheet [''Day'', ''WeekType'', ''Course'', ''Room'', ''Type'']
           [[Some ''Monday'', Some ''all'', Some ''Mathematics 101'', Some ''A1'',
             Some ''Lecture'']],
         exceptions_file = NoExceptionsFile, EMAIL_USER = Some ''me@example.org'',
         EMAIL_PASS = Some ''secret'', smtp_accepts = True\<rparr>
     = \<lparr>printed = [Processing ''Monday'' ''2026-03-02'', CurrentParity ''Even'',
                    SendingEmail 1],
        attempts = [], outcome = Stopped (Uncaught (KeyError ''Time''))\<rparr>"
proof -
  let ?df = "\<lparr>columns = [''Day'', ''WeekType'', ''Course'', ''Room'', ''Type''],
       rows = [[Some ''Monday'', Some ''all'', Some ''Mathematics 101'', Some ''A1'',
                Some ''Lecture'']]\<rparr>"
  have load: "load_data (Sheet [''Day'', ''WeekType'', ''Course'', ''Room'', ''Type'']
           [[Some ''Monday'', Some ''all'', Some ''Mathematics 101'', Some ''A1'',
             Some ''Lecture'']]) = Inr ?df"
    by (simp add: load_data_def strip_def is_space_def)
  have day: "day_filter ''Monday'' ?df = Inr ?df"
    by (simp add: day_filter_def str_accessor_def getitem_def select_rows_def cell_of_def
        str_lower_def lower_char_def UPPER_CASE_def LOWER_CASE_def)
  have week: "parity_filter ''even'' ?df = Inr ?df"
    by (simp add: parity_filter_def str_accessor_def getitem_def select_rows_def cell_of_def
        fillna_def str_lower_def lower_char_def UPPER_CASE_def LOWER_CASE_def)
  have fmt: "format_email_body ?df ''2026-03-02'' = Inl (Uncaught (KeyError ''Time''))"
    by (simp add: format_email_body_def)
  show ?thesis
    by (simp add: main_def main_with_def module_config_def monday_2026_03_02 load day
        df_empty_def filter_by_parity_def week apply_exceptions_and_send_def
        get_todays_exceptions_def final_check_and_send_def fmt stopped_def Let_def)
qed

section \<open>Properties of the cancellations\<close>

lemma match_here_literals:
  "match_here (map Lit p) s \<longleftrightarrow> prefix (str_lower p) (str_lower s)"
proof (induction p arbitrary: s)
  case Nil
  then show ?case by (simp add: str_lower_def)
next
  case (Cons a p)
  show ?case
  proof (cases s)
    case Nil
    then show ?thesis by (simp add: str_lower_def)
  next
    case (Cons c cs)
    with Cons.IH [of cs] show ?thesis
      by (auto simp add: str_lower_def atom_matches_def)
  qed
qed

lemma re_search_literals:
  "re_search (map (map Lit) ps) s \<longleftrightarrow> list_ex (\<lambda>p. contains_ignoring_case p s) ps"
proof (induction s)
  case Nil
  show ?case
    by (simp add: list_ex_iff match_here_literals contains_ignoring_case_def str_lower_def)
next
  case (Cons c cs)
  have "sublist (str_lower p) (str_lower (c # cs))
          \<longleftrightarrow> prefix (str_lower p) (str_lower (c # cs)) \<or> sublist (str_lower p) (str_lower cs)"
    for p
    by (simp add: str_lower_def sublist_Cons_right)
  with Cons.IH show ?case
    by (auto simp add: list_ex_iff match_here_literals contains_ignoring_case_def)
qed

lemma parse_branch_plain:
  "plain_pattern p \<Longrightarrow> parse_branch p = Some (map Lit p)"
  by (induction p) (auto simp add: plain_pattern_def parse_atom_def)

lemma parse_branches_plain:
  "list_all plain_pattern ps \<Longrightarrow> parse_branches ps = Some (map (map Lit) ps)"
  by (induction ps) (auto simp add: parse_branch_plain)

lemma split_bar_not_empty: "split_bar s \<noteq> []"
  by (induction s) (auto split: list.splits)

lemma split_bar_no_bar:
  "CHR ''|'' \<notin> set p \<Longrightarrow> split_bar p = [p]"
  by (induction p) auto

lemma split_bar_first:
  "CHR ''|'' \<notin> set p \<Longrightarrow> split_bar (p @ CHR ''|'' # s) = p # split_bar s"
  by (induction p) auto

lemma split_bar_join:
  "ps \<noteq> [] \<Longrightarrow> list_all (\<lambda>p. CHR ''|'' \<notin> set p) ps \<Longrightarrow> split_bar (join ''|'' ps) = ps"
proof (induction "''|''" ps rule: join.induct)
  case 1
  then show ?case by simp
next
  case (2 p)
  then show ?case by (simp add: split_bar_no_bar)
next
  case (3 p q ps)
  then show ?case by (simp add: split_bar_first)
qed

lemma plain_pattern_no_bar: "plain_pattern p \<Longrightarrow> CHR ''|'' \<notin> set p"
  by (auto simp add: plain_pattern_def list_all_iff)

lemma join_bar_empty: "join ''|'' ps = [] \<longleftrightarrow> ps = [] \<or> ps = [[]]"
  by (induction "''|''" ps rule: join.induct) auto

lemma re_compile_plain:
  assumes "ps \<noteq> []" and "list_all plain_pattern ps"
  shows "re_compile (join ''|'' ps) = Some (map (map Lit) ps)"
proof -
  from assms(2) have "list_all (\<lambda>p. CHR ''|'' \<notin> set p) ps"
    by (auto simp add: list_all_iff plain_pattern_no_bar)
  with assms show ?thesis
    by (simp add: re_compile_def split_bar_join parse_branches_plain)
qed

text \<open>A field that holds a list of strings, or is absent.\<close>

lemma strings_of_field_value:
  assumes "strings_of_field d key = Some xs"
  shows "\<exists>js. get_or_empty d key = JArray js \<and> list_all is_string js
           \<and> map string_of js = xs"
  using assms by (auto simp add: strings_of_field_def split: json.splits if_splits)

lemma cancel_hours_filter_rows:
  assumes "count_list (columns df) ''Time'' = 1"
    and "strings_of_field rule ''cancel_hours'' = Some hours"
  shows "cancel_hours_filter rule df =
     Inr (df\<lparr>rows :=
            filter (\<lambda>r. \<not> isin (cell_of (columns df) r ''Time'') hours) (rows df)\<rparr>)"
proof -
  from strings_of_field_value [OF assms(2)] obtain js where
    js: "get_or_empty rule ''cancel_hours'' = JArray js" "list_all is_string js"
      "map string_of js = hours"
    by blast
  show ?thesis
  proof (cases "js = []")
    case True
    with js show ?thesis
      by (auto simp add: cancel_hours_filter_def truthy_def isin_def split: option.splits)
  next
    case False
    with js show ?thesis
      by (simp add: cancel_hours_filter_def truthy_def isin_values_def
          getitem_one [OF assms(1)] select_rows_map o_def Let_def)
  qed
qed

lemma str_contains_plain:
  assumes "ps \<noteq> []" and "list_all plain_pattern ps"
  shows "str_contains vals (join ''|'' ps)
           = Some (map (\<lambda>v. case v of None \<Rightarrow> False
                              | Some s \<Rightarrow> list_ex (\<lambda>p. contains_ignoring_case p s) ps) vals)"
  by (simp add: str_contains_def re_compile_plain [OF assms] re_search_literals
      split: option.splits)

lemma cancel_courses_filter_rows:
  assumes "count_list (columns df) ''Course'' = 1"
    and "strings_of_field rule ''cancel_courses'' = Some patterns"
    and "list_all plain_pattern patterns"
    and "patterns \<noteq> [[]]"
  shows "cancel_courses_filter rule df =
     Inr (df\<lparr>rows :=
            filter (\<lambda>r. \<not> (case cell_of (columns df) r ''Course'' of
                               None \<Rightarrow> False
                             | Some s \<Rightarrow> list_ex (\<lambda>p. contains_ignoring_case p s) patterns))
              (rows df)\<rparr>)"
proof -
  from strings_of_field_value [OF assms(2)] obtain js where
    js: "get_or_empty rule ''cancel_courses'' = JArray js" "list_all is_string js"
      "map string_of js = patterns"
    by blast
  show ?thesis
  proof (cases "js = []")
    case True
    with js show ?thesis
      by (auto simp add: cancel_courses_filter_def truthy_def split: option.splits)
  next
    case False
    with js have ne: "patterns \<noteq> []" by auto
    with assms(4) have "join ''|'' patterns \<noteq> []"
      by (simp add: join_bar_empty)
    with False js ne assms(3) show ?thesis
      by (simp add: cancel_courses_filter_def truthy_def join_parts_def
          str_accessor_one [OF assms(1)] str_contains_plain select_rows_map o_def Let_def)
  qed
qed

lemma cancel_courses_filter_empty_pattern:
  assumes "strings_of_field rule ''cancel_courses'' = Some [[]]"
  shows "cancel_courses_filter rule df = Inr df"
proof -
  from strings_of_field_value [OF assms] obtain js where
    js: "get_or_empty rule ''cancel_courses'' = JArray js" "list_all is_string js"
      "map string_of js = [[]]"
    by auto
  then show ?thesis
    by (auto simp add: cancel_courses_filter_def truthy_def join_parts_def)
qed

text \<open>Without the column that a cancellation reads, the step raises.\<close>

lemma cancel_hours_filter_no_time_column:
  "cancel_hours_filter [(''date'', JString ''2026-03-02''), (''cancel_hours'', JArray [JString ''10:00''])]
     \<lparr>columns = [''Day'', ''Course''], rows = [[Some ''Monday'', Some ''Physics'']]\<rparr>
     = Inl (Uncaught (KeyError ''Time''))"
  by (simp add: cancel_hours_filter_def get_or_empty_def dict_get_def truthy_def getitem_def)

text \<open>The run hands the rows that the rule leaves to its final step.\<close>

lemma apply_exceptions_and_send_found:
  assumes "get_todays_exceptions (exceptions_file env) (today env)
             = (warnings, Inr (Some rule))"
    and "rule \<noteq> []"
    and "apply_exception_rule rule daily = Inr remaining"
  shows "apply_exceptions_and_send cfg env lines ts daily
           = final_check_and_send cfg env
               (lines @ warnings
                @ [FoundExceptions (case dict_get rule ''note'' of
                                      None \<Rightarrow> JString ''No note'' | Some v \<Rightarrow> v)])
               ts remaining"
  using assms by (simp add: apply_exceptions_and_send_def Let_def)

lemma spec_cancelled_no_patterns:
  "spec_cancelled hours [] time_cell course_cell = isin time_cell hours"
  by (cases course_cell) (simp_all add: spec_cancelled_def isin_def)

text \<open>
  Claim C7, as stated: the override step removes exactly the entries whose Time is a
  cancelled hour or whose Course contains a cancelled pattern as a substring, case
  ignored. The code joins the patterns with a bar and searches the result as a regular
  expression, so a pattern that holds a special character is not read literally: the
  pattern "Calc." removes the course "Calculus II", which does not contain it.
\<close>

theorem course_pattern_is_a_regular_expression:
  "\<not> spec_cancelled [] [''Calc.''] (Some ''09:00'') (Some ''Calculus II'')
   \<and> apply_exception_rule
        [(''date'', JString ''2026-03-02''), (''cancel_courses'', JArray [JString ''Calc.''])]
        \<lparr>columns = [''Time'', ''Course''], rows = [[Some ''09:00'', Some ''Calculus II'']]\<rparr>
      = Inr \<lparr>columns = [''Time'', ''Course''], rows = []\<rparr>"
proof -
  have spec: "\<not> spec_cancelled [] [''Calc.''] (Some ''09:00'') (Some ''Calculus II'')"
    by (simp add: spec_cancelled_def contains_ignoring_case_def str_lower_def lower_char_def
        UPPER_CASE_def LOWER_CASE_def sublist_code)
  have compile: "re_compile ''Calc.''
      = Some [[Lit CHR ''C'', Lit CHR ''a'', Lit CHR ''l'', Lit CHR ''c'', AnyChar]]"
    by (simp add: re_compile_def parse_atom_def re_special_def)
  have found: "str_contains [Some ''Calculus II''] ''Calc.'' = Some [True]"
    by (simp add: str_contains_def compile atom_matches_def lower_char_def
        UPPER_CASE_def LOWER_CASE_def)
  have code: "apply_exception_rule
        [(''date'', JString ''2026-03-02''), (''cancel_courses'', JArray [JString ''Calc.''])]
        \<lparr>columns = [''Time'', ''Course''], rows = [[Some ''09:00'', Some ''Calculus II'']]\<rparr>
      = Inr \<lparr>columns = [''Time'', ''Course''], rows = []\<rparr>"
    by (simp add: apply_exception_rule_def cancel_hours_filter_def cancel_courses_filter_def
        get_or_empty_def dict_get_def truthy_def join_parts_def is_string_def string_of_def
        str_accessor_def getitem_def cell_of_def found select_rows_def)
  from spec code show ?thesis by blast
qed

text \<open>
  Claim C7, amended: when an exception rule applies for today in which cancel_hours and
  cancel_courses are each absent or a list of strings, no pattern in cancel_courses
  holds a character that is special in regular expressions, and the table has exactly
  one column labelled Time and exactly one labelled Course, the pipeline removes exactly
  those entries whose Time is a member of cancel_hours and those whose Course contains,
  as a case-insensitive substring, some pattern in cancel_courses (the pattern "Math"
  removes "Mathematics 101"), and leaves every other entry intact, in its order; except
  that when cancel_courses is the empty string alone, no entry is removed for its
  Course.
\<close>

theorem exception_rule_removes_cancelled:
  assumes "count_list (columns df) ''Time'' = 1" and "count_list (columns df) ''Course'' = 1"
    and "strings_of_field rule ''cancel_hours'' = Some hours"
    and "strings_of_field rule ''cancel_courses'' = Some patterns"
    and "list_all plain_pattern patterns"
  shows "(patterns \<noteq> [[]] \<longrightarrow>
           apply_exception_rule rule df =
             Inr (df\<lparr>rows :=
                    filter (\<lambda>r. \<not> spec_cancelled hours patterns
                                    (cell_of (columns df) r ''Time'')
                                    (cell_of (columns df) r ''Course'')) (rows df)\<rparr>))
         \<and> (patterns = [[]] \<longrightarrow>
           apply_exception_rule rule df =
             Inr (df\<lparr>rows :=
                    filter (\<lambda>r. \<not> spec_cancelled hours []
                                    (cell_of (columns df) r ''Time'')
                                    (cell_of (columns df) r ''Course'')) (rows df)\<rparr>))"
proof -
  let ?by_hour = "df\<lparr>rows :=
      filter (\<lambda>r. \<not> isin (cell_of (columns df) r ''Time'') hours) (rows df)\<rparr>"
  have hours: "cancel_hours_filter rule df = Inr ?by_hour"
    using cancel_hours_filter_rows [OF assms(1,3)] .
  have cols: "count_list (columns ?by_hour) ''Course'' = 1"
    using assms(2) by simp
  have general: "apply_exception_rule rule df =
             Inr (df\<lparr>rows :=
                    filter (\<lambda>r. \<not> spec_cancelled hours patterns
                                    (cell_of (columns df) r ''Time'')
                                    (cell_of (columns df) r ''Course'')) (rows df)\<rparr>)"
    if "patterns \<noteq> [[]]"
  proof -
    from cancel_courses_filter_rows [OF cols assms(4,5) that]
    show ?thesis
      by (simp add: apply_exception_rule_def hours spec_cancelled_def isin_def)
  qed
  have single: "apply_exception_rule rule df =
             Inr (df\<lparr>rows :=
                    filter (\<lambda>r. \<not> spec_cancelled hours []
                                    (cell_of (columns df) r ''Time'')
                                    (cell_of (columns df) r ''Course'')) (rows df)\<rparr>)"
    if "patterns = [[]]"
  proof -
    from that assms(4) have "strings_of_field rule ''cancel_courses'' = Some [[]]" by simp
    from cancel_courses_filter_empty_pattern [OF this, of ?by_hour]
    show ?thesis
      by (simp add: apply_exception_rule_def hours spec_cancelled_no_patterns)
  qed
  from general single show ?thesis by blast
qed

theorem exception_rule_removes_cancelled_witness:
  "list_all plain_pattern [''Math'']
   \<and> apply_exception_rule
        [(''date'', JString ''2026-03-02''), (''note'', JString ''strike''),
         (''cancel_hours'', JArray [JString ''10:00'']),
         (''cancel_courses'', JArray [JString ''Math''])]
        \<lparr>columns = [''Time'', ''Course''],
         rows = [[Some ''09:00'', Some ''Mathematics 101''], [Some ''10:00'', Some ''Physics''],
                 [Some ''11:00'', Some ''Chemistry'']]\<rparr>
      = Inr \<lparr>columns = [''Time'', ''Course''], rows = [[Some ''11:00'', Some ''Chemistry'']]\<rparr>"
proof -
  let ?rule = "[(''date'', JString ''2026-03-02''), (''note'', JString ''strike''),
         (''cancel_hours'', JArray [JString ''10:00'']),
         (''cancel_courses'', JArray [JString ''Math''])]"
  let ?df = "\<lparr>columns = [''Time'', ''Course''],
         rows = [[Some ''09:00'', Some ''Mathematics 101''], [Some ''10:00'', Some ''Physics''],
                 [Some ''11:00'', Some ''Chemistry'']]\<rparr>"
  have t: "count_list (columns ?df) ''Time'' = 1" and c: "count_list (columns ?df) ''Course'' = 1"
    by simp_all
  have h: "strings_of_field ?rule ''cancel_hours'' = Some [''10:00'']"
    and p: "strings_of_field ?rule ''cancel_courses'' = Some [''Math'']"
    by (simp_all add: strings_of_field_def get_or_empty_def dict_get_def is_string_def
        string_of_def)
  have plain: "list_all plain_pattern [''Math'']"
    by (simp add: plain_pattern_def re_special_def)
  have kept: "filter (\<lambda>r. \<not> spec_cancelled [''10:00''] [''Math'']
                 (cell_of (columns ?df) r ''Time'') (cell_of (columns ?df) r ''Course''))
               (rows ?df) = [[Some ''11:00'', Some ''Chemistry'']]"
    by (simp add: spec_cancelled_def contains_ignoring_case_def str_lower_def lower_char_def
        UPPER_CASE_def LOWER_CASE_def cell_of_def sublist_code)
  from exception_rule_removes_cancelled [OF t c h p plain] kept plain
  show ?thesis by simp
qed

end
